theory Spec2Isabelle
  imports Complex_Main
begin

section \<open>Numbers, arrays and exceptions\<close>

text \<open>
  The notebook \<^verbatim>\<open>NIRSpec MOS spectral registration.ipynb\<close> works on one-dimensional
  numpy arrays of floats. An array is a list. A float is a real number: arithmetic is
  exact, and the wavelengths and fluxes that enter are finite (no NaN, no infinity), so
  rounding, overflow and NaN inputs are outside this model. numpy does produce a
  non-finite value from finite operands in two places of the notebook, a division by
  zero and the standard deviation of an empty array; the results of these two
  operations have the type \<open>npfloat\<close>.
\<close>

datatype npfloat = Finite real | NonFinite

text \<open>\<^verbatim>\<open>np.isfinite\<close>: false on NaN and on both infinities.\<close>

fun isfinite :: "npfloat \<Rightarrow> bool" where
  "isfinite (Finite x) = True"
| "isfinite NonFinite = False"

text \<open>
  The exceptions numpy raises in the modelled cells: \<open>ValueError\<close> (a reduction of an
  empty array, operands that do not broadcast), \<open>IndexError\<close> (a boolean index whose
  length is not the array's). \<open>LibraryError\<close> stands for any exception raised inside
  one of the external routines (interpolation, fitter, minimizer).
\<close>

datatype error = ValueError | IndexError | LibraryError string

definition err_bind :: "error + 'a \<Rightarrow> ('a \<Rightarrow> error + 'b) \<Rightarrow> error + 'b" where
  "err_bind m f = (case m of Inl e \<Rightarrow> Inl e | Inr v \<Rightarrow> f v)"

text \<open>
  A binary elementwise operation on two one-dimensional arrays, with numpy's
  broadcasting: equal lengths pair up, an array of length one is stretched, any other
  combination raises \<open>ValueError\<close>.
\<close>

definition broadcast2 :: "('a \<Rightarrow> 'b \<Rightarrow> 'c) \<Rightarrow> 'a list \<Rightarrow> 'b list \<Rightarrow> error + 'c list" where
  "broadcast2 f xs ys =
     (if length xs = length ys then Inr (map2 f xs ys)
      else if length xs = 1 then Inr (map (f (hd xs)) ys)
      else if length ys = 1 then Inr (map (\<lambda>x. f x (hd ys)) xs)
      else Inl ValueError)"

text \<open>
  Boolean-mask indexing \<^verbatim>\<open>a[mask]\<close>: the entries of \<open>a\<close> where the mask is true, in
  order; \<open>IndexError\<close> when the mask's length is not the array's.
\<close>

definition select :: "'a list \<Rightarrow> bool list \<Rightarrow> 'a list" where
  "select a msk = map fst (filter snd (zip a msk))"

definition mask_index :: "'a list \<Rightarrow> bool list \<Rightarrow> error + 'a list" where
  "mask_index a msk = (if length msk = length a then Inr (select a msk) else Inl IndexError)"

text \<open>\<^verbatim>\<open>a.min()\<close> and \<^verbatim>\<open>a.max()\<close>: \<open>ValueError\<close> on an empty array.\<close>

definition np_min :: "real list \<Rightarrow> error + real" where
  "np_min a = (case a of [] \<Rightarrow> Inl ValueError | x # xs \<Rightarrow> Inr (fold min xs x))"

definition np_max :: "real list \<Rightarrow> error + real" where
  "np_max a = (case a of [] \<Rightarrow> Inl ValueError | x # xs \<Rightarrow> Inr (fold max xs x))"


text \<open>
  \<^verbatim>\<open>a.std()\<close> with numpy's defaults (\<^verbatim>\<open>ddof=0\<close>): the square root of the mean of
  \<^verbatim>\<open>abs(a - a.mean())**2\<close>. On an empty array the mean is 0/0: numpy warns and
  returns NaN.
\<close>

definition np_std :: "real list \<Rightarrow> npfloat" where
  "np_std a =
     (if a = [] then NonFinite
      else let n = real (length a); mean = sum_list a / n
           in Finite (sqrt (sum_list (map (\<lambda>x. \<bar>x - mean\<bar> ^ 2) a) / n)))"

text \<open>\<^verbatim>\<open>np.zeros_like\<close>.\<close>

definition zeros_like :: "real list \<Rightarrow> real list" where
  "zeros_like a = replicate (length a) 0"

section \<open>External routines\<close>

text \<open>
  The notebook calls three library routines that are not part of the repository. Each
  is a parameter of the model. A theorem that depends on what a routine computes
  assumes the routine's contract, stated further down; every other theorem holds
  whatever the routine computes or raises:
  \<^item> \<^verbatim>\<open>interp1d(x, y, fill_value='extrapolate')(x_new)\<close> of scipy, as a function of
    \<open>x\<close>, \<open>y\<close> and \<open>x_new\<close>;
  \<^item> \<^verbatim>\<open>fitting.LinearLSQFitter()(models.Polynomial1D(degree), x, y)\<close> of astropy, as a
    function of the degree, \<open>x\<close> and \<open>y\<close> that returns the fitted coefficients
    \<open>c\<^sub>0, c\<^sub>1, ...\<close>;
  \<^item> \<^verbatim>\<open>minimize(fun, x0, args=(a,), method='Nelder-Mead')\<close> of scipy, as a function of
    the objective, \<open>x0\<close> and \<open>a\<close> that returns scipy's \<^verbatim>\<open>OptimizeResult\<close>.
\<close>

type_synonym interp1d_routine = "real list \<Rightarrow> real list \<Rightarrow> real list \<Rightarrow> error + real list"

type_synonym fitter_routine = "nat \<Rightarrow> real list \<Rightarrow> npfloat list \<Rightarrow> error + real list"

text \<open>
  The fields of \<^verbatim>\<open>OptimizeResult\<close> the spec names: \<^verbatim>\<open>x\<close> (the best coefficients found),
  \<^verbatim>\<open>success\<close> (the convergence flag), \<^verbatim>\<open>fun\<close> (the final objective value) and \<^verbatim>\<open>nit\<close>
  (the iteration count).
\<close>

record OptimizeResult =
  res_x :: "real list"
  res_success :: bool
  res_fun :: npfloat
  res_nit :: nat

type_synonym objective = "real list \<Rightarrow> real list \<Rightarrow> error + npfloat"

type_synonym minimize_routine = "objective \<Rightarrow> real list \<Rightarrow> real list \<Rightarrow> error + OptimizeResult"

section \<open>Isolating the regions of overlap\<close>

text \<open>
  \<^verbatim>\<open>
  wave_lo, wave_hi = max(wave1.min(), wave2.min()), min(wave1.max(), wave2.max())
  in_wave1 = (wave1 >= wave_lo) & (wave1 <= wave_hi) & (spec1 != 0.0)
  in_wave2 = (wave2 >= wave_lo) & (wave2 <= wave_hi) & (spec2 != 0.0)
  \<close>
\<close>

definition in_wave :: "real \<Rightarrow> real \<Rightarrow> real list \<Rightarrow> real list \<Rightarrow> error + bool list" where
  "in_wave wave_lo wave_hi wave spec =
     err_bind (broadcast2 (\<and>) (map (\<lambda>w. w \<ge> wave_lo) wave) (map (\<lambda>w. w \<le> wave_hi) wave))
       (\<lambda>in_range. broadcast2 (\<and>) in_range (map (\<lambda>f. f \<noteq> 0) spec))"

definition overlap_selection ::
  "real list \<Rightarrow> real list \<Rightarrow> real list \<Rightarrow> real list \<Rightarrow>
   error + (real \<times> real \<times> bool list \<times> bool list)" where
  "overlap_selection wave1 spec1 wave2 spec2 =
     err_bind (np_min wave1) (\<lambda>min1.
     err_bind (np_min wave2) (\<lambda>min2.
     err_bind (np_max wave1) (\<lambda>max1.
     err_bind (np_max wave2) (\<lambda>max2.
       let wave_lo = max min1 min2; wave_hi = min max1 max2 in
       err_bind (in_wave wave_lo wave_hi wave1 spec1) (\<lambda>in_wave1.
       err_bind (in_wave wave_lo wave_hi wave2 spec2) (\<lambda>in_wave2.
         Inr (wave_lo, wave_hi, in_wave1, in_wave2)))))))"

section \<open>Normalizing the continuum\<close>


text \<open>
  \<^verbatim>\<open>
  norm_model = models.Polynomial1D(2)
  fitter = fitting.LinearLSQFitter()
  ok_px = (np.isfinite(div_spec)) & (out_wave >= 1.70)
  normalization = fitter(norm_model, out_wave[ok_px], div_spec[ok_px])
  \<close>
  The fitted model is represented by its coefficients.
\<close>

definition ok_px :: "npfloat list \<Rightarrow> real list \<Rightarrow> error + bool list" where
  "ok_px div_spec out_wave =
     broadcast2 (\<and>) (map isfinite div_spec) (map (\<lambda>w. w \<ge> 17 / 10) out_wave)"

definition normalization :: "fitter_routine \<Rightarrow> real list \<Rightarrow> npfloat list \<Rightarrow> error + real list" where
  "normalization fitter out_wave div_spec =
     err_bind (ok_px div_spec out_wave) (\<lambda>ok.
     err_bind (mask_index out_wave ok) (\<lambda>x.
     err_bind (mask_index div_spec ok) (\<lambda>y.
       fitter 2 x y)))"






section \<open>Registering the second spectrum to the first in wavelength\<close>

text \<open>
  \<^verbatim>\<open>
  def alter_wave(poly_coefs, old_wave):
      altered_wave2 = np.zeros_like(old_wave)
      for c, coef in enumerate(poly_coefs):
          altered_wave2 += coef * old_wave**c
      return altered_wave2
  \<close>
  The loop is a fold over the enumerated coefficients; the accumulator and
  \<^verbatim>\<open>coef * old_wave**c\<close> always have the shape of \<open>old_wave\<close>.
\<close>

definition alter_wave_step :: "real list \<Rightarrow> nat \<times> real \<Rightarrow> real list \<Rightarrow> real list" where
  "alter_wave_step old_wave = (\<lambda>(c, coef) altered_wave2.
     map2 (+) altered_wave2 (map (\<lambda>w. coef * w ^ c) old_wave))"

definition alter_wave :: "real list \<Rightarrow> real list \<Rightarrow> real list" where
  "alter_wave poly_coefs old_wave =
     fold (alter_wave_step old_wave) (enumerate 0 poly_coefs) (zeros_like old_wave)"

text \<open>
  \<^verbatim>\<open>
  def alter_spec(wave):
      altered_spec2 = interp1d(wave, spec2[in_wave2], fill_value='extrapolate')(out_wave)
      return altered_spec2
  \<close>
  The globals \<open>spec2\<close>, \<open>in_wave2\<close> and \<open>out_wave\<close> the function reads are arguments of
  the model, as is the global \<open>scaled_spec1\<close> of \<open>fit_metric\<close>.
\<close>

definition alter_spec ::
  "interp1d_routine \<Rightarrow> real list \<Rightarrow> bool list \<Rightarrow> real list \<Rightarrow> real list \<Rightarrow> error + real list" where
  "alter_spec interp1d spec2 in_wave2 out_wave wave =
     err_bind (mask_index spec2 in_wave2) (\<lambda>y. interp1d wave y out_wave)"

text \<open>
  \<^verbatim>\<open>
  def fit_metric(poly_coefs, old_wave):
      altered_wave2 = alter_wave(poly_coefs, old_wave)
      altered_spec2 = alter_spec(altered_wave2)
      diff_spec = altered_spec2 - scaled_spec1
      return diff_spec.std()
  \<close>
\<close>

definition fit_metric ::
  "interp1d_routine \<Rightarrow> real list \<Rightarrow> bool list \<Rightarrow> real list \<Rightarrow> real list \<Rightarrow>
   real list \<Rightarrow> real list \<Rightarrow> error + npfloat" where
  "fit_metric interp1d spec2 in_wave2 out_wave scaled_spec1 poly_coefs old_wave =
     (let altered_wave2 = alter_wave poly_coefs old_wave in
      err_bind (alter_spec interp1d spec2 in_wave2 out_wave altered_wave2) (\<lambda>altered_spec2.
      err_bind (broadcast2 (-) altered_spec2 scaled_spec1) (\<lambda>diff_spec.
        Inr (np_std diff_spec))))"

text \<open>
  \<^verbatim>\<open>
  pixel_fit = minimize(fit_metric, np.array([0., 1., 0.]), args=(wave2[in_wave2],),
                       method='Nelder-Mead')
  \<close>
\<close>

definition pixel_fit ::
  "minimize_routine \<Rightarrow> interp1d_routine \<Rightarrow> real list \<Rightarrow> real list \<Rightarrow> bool list \<Rightarrow> real list \<Rightarrow>
   real list \<Rightarrow> error + OptimizeResult" where
  "pixel_fit minimize interp1d wave2 spec2 in_wave2 out_wave scaled_spec1 =
     err_bind (mask_index wave2 in_wave2) (\<lambda>old_wave.
       minimize (fit_metric interp1d spec2 in_wave2 out_wave scaled_spec1) [0, 1, 0] old_wave)"

text \<open>
  \<^verbatim>\<open>
  bad_wave2 = wave2[in_wave2] * 1.1
  pixel_fit2 = minimize(fit_metric, np.array([0., 1.0, 0.]), args=(bad_wave2,),
                        method='Nelder-Mead')
  \<close>
\<close>

definition pixel_fit2 ::
  "minimize_routine \<Rightarrow> interp1d_routine \<Rightarrow> real list \<Rightarrow> real list \<Rightarrow> bool list \<Rightarrow> real list \<Rightarrow>
   real list \<Rightarrow> error + OptimizeResult" where
  "pixel_fit2 minimize interp1d wave2 spec2 in_wave2 out_wave scaled_spec1 =
     err_bind (mask_index wave2 in_wave2) (\<lambda>old_wave.
       let bad_wave2 = map (\<lambda>w. w * (11 / 10)) old_wave in
       minimize (fit_metric interp1d spec2 in_wave2 out_wave scaled_spec1) [0, 1, 0] bad_wave2)"

section \<open>Notions of the specification\<close>

text \<open>
  The bounds of the spec's overlap region,
  \<open>[lo, hi] = [max(min(w1), min(w2)), min(max(w1), max(w2))]\<close>, for non-empty arrays.
\<close>

definition overlap_lo :: "real list \<Rightarrow> real list \<Rightarrow> real" where
  "overlap_lo w1 w2 = max (Min (set w1)) (Min (set w2))"

definition overlap_hi :: "real list \<Rightarrow> real list \<Rightarrow> real" where
  "overlap_hi w1 w2 = min (Max (set w1)) (Max (set w2))"

text \<open>The wavelength ranges of two non-empty arrays do not overlap.\<close>

definition ranges_disjoint :: "real list \<Rightarrow> real list \<Rightarrow> bool" where
  "ranges_disjoint w1 w2 \<longleftrightarrow> Max (set w1) < Min (set w2) \<or> Max (set w2) < Min (set w1)"


text \<open>
  The two standard deviations of a non-empty sample: the population one (divisor \<open>N\<close>)
  and the unbiased one (Bessel's correction, divisor \<open>N - 1\<close>).
\<close>

definition population_std :: "real list \<Rightarrow> real" where
  "population_std a =
     sqrt ((\<Sum>x\<leftarrow>a. (x - sum_list a / real (length a)) ^ 2) / real (length a))"

definition unbiased_std :: "real list \<Rightarrow> real" where
  "unbiased_std a =
     sqrt ((\<Sum>x\<leftarrow>a. (x - sum_list a / real (length a)) ^ 2) / (real (length a) - 1))"

section \<open>Contracts of the external routines\<close>

text \<open>
  Modelled from the spec: the linear interpolation primitive (``given (x, y) samples
  and query points, returns interpolated y, with an extrapolation mode''), which the
  notebook calls as scipy's \<^verbatim>\<open>interp1d\<close> with its default \<^verbatim>\<open>kind='linear'\<close> and with
  \<^verbatim>\<open>fill_value='extrapolate'\<close>; the routine itself is not in the repository. Through at
  least two points with strictly increasing abscissae, the value at \<open>x_new\<close> lies on
  the segment whose right end is the first abscissa not below \<open>x_new\<close>; below the first
  and above the last abscissa the first and the last segment are continued. A routine
  is linear with extrapolation when it returns these values at every query point.
\<close>

fun interp_point :: "(real \<times> real) list \<Rightarrow> real \<Rightarrow> real" where
  "interp_point ((x_lo, y_lo) # (x_hi, y_hi) # ps) x_new =
     (if x_new \<le> x_hi \<or> ps = [] then (y_hi - y_lo) / (x_hi - x_lo) * (x_new - x_lo) + y_lo
      else interp_point ((x_hi, y_hi) # ps) x_new)"
| "interp_point ps x_new = 0"





section \<open>Instances of the external routines\<close>

text \<open>
  The examples below need closed instances of the routines. \<open>linear_interp\<close> computes
  the interpolation of the contract and rejects any input outside it. \<open>exact_fitter p\<close>
  answers \<open>p\<close> when \<open>p\<close> has the degree asked for and passes through every sample, so
  that no residual is left, and fails otherwise. \<open>give_up_minimizer\<close> evaluates the
  objective at the initial guess and reports non-convergence at once;
  \<open>failing_minimizer\<close> does so for the wavelength array \<open>[1, 2]\<close> and raises for any
  other.
\<close>

definition linear_interp :: interp1d_routine where
  "linear_interp x y x_new =
     (if length x \<noteq> length y then Inl ValueError
      else if length x < 2 then Inl ValueError
      else if \<not> sorted_wrt (<) x then Inl (LibraryError ''abscissae not increasing'')
      else Inr (map (interp_point (zip x y)) x_new))"


definition give_up_minimizer :: minimize_routine where
  "give_up_minimizer objective x0 a =
     err_bind (objective x0 a) (\<lambda>v.
       Inr \<lparr>res_x = x0, res_success = False, res_fun = v, res_nit = 0\<rparr>)"

definition failing_minimizer :: minimize_routine where
  "failing_minimizer objective x0 a =
     (if a = [1, 2] then give_up_minimizer objective x0 a
      else Inl (LibraryError ''minimize failed''))"

section \<open>Properties of the warp\<close>

lemma length_alter_wave_fold:
  "length acc = length old_wave \<Longrightarrow>
   length (fold (alter_wave_step old_wave) (enumerate n cs) acc) = length old_wave"
  by (induction cs arbitrary: n acc) (simp_all add: alter_wave_step_def)

lemma length_alter_wave: "length (alter_wave cs old_wave) = length old_wave"
  by (simp add: alter_wave_def zeros_like_def length_alter_wave_fold)

lemma nth_alter_wave_fold:
  "length acc = length old_wave \<Longrightarrow> j < length old_wave \<Longrightarrow>
   fold (alter_wave_step old_wave) (enumerate n cs) acc ! j =
     acc ! j + (\<Sum>k<length cs. cs ! k * (old_wave ! j) ^ (n + k))"
proof (induction cs arbitrary: n acc)
  case Nil
  then show ?case by simp
next
  case (Cons c cs)
  let ?acc = "alter_wave_step old_wave (n, c) acc"
  have len: "length ?acc = length old_wave"
    using Cons.prems by (simp add: alter_wave_step_def)
  have step: "?acc ! j = acc ! j + c * (old_wave ! j) ^ n"
    using Cons.prems by (simp add: alter_wave_step_def)
  have "fold (alter_wave_step old_wave) (enumerate n (c # cs)) acc ! j =
        fold (alter_wave_step old_wave) (enumerate (Suc n) cs) ?acc ! j"
    by simp
  also have "\<dots> = ?acc ! j + (\<Sum>k<length cs. cs ! k * (old_wave ! j) ^ (Suc n + k))"
    using Cons.IH [OF len Cons.prems(2)] .
  also have "\<dots> = acc ! j + (\<Sum>k<length (c # cs). (c # cs) ! k * (old_wave ! j) ^ (n + k))"
    by (simp add: step sum.lessThan_Suc_shift del: sum.lessThan_Suc)
  finally show ?case .
qed

lemma nth_alter_wave:
  "j < length old_wave \<Longrightarrow>
   alter_wave cs old_wave ! j = (\<Sum>k<length cs. cs ! k * (old_wave ! j) ^ k)"
  unfolding alter_wave_def zeros_like_def
  by (subst nth_alter_wave_fold) simp_all

lemma sum_lessThan_3: "(\<Sum>k<(3::nat). f k) = f 0 + f 1 + (f 2 :: real)"
  by (simp add: numeral_3_eq_3 numeral_2_eq_2)

text \<open>
  C3. For every coefficient vector \<open>c\<close> and wavelength array \<open>w\<close>, \<open>alter_wave\<close>
  returns an array of the length of \<open>w\<close> whose \<open>j\<close>-th entry is the power sum
  \<open>c\<^sub>0 + c\<^sub>1 * w[j] + ... + c\<^sub>n * w[j]^n\<close>.
\<close>

theorem alter_wave_power_sum:
  "length (alter_wave c w) = length w \<and>
   (\<forall>j<length w. alter_wave c w ! j = (\<Sum>k<length c. c ! k * (w ! j) ^ k))"
  by (simp add: length_alter_wave nth_alter_wave)

theorem alter_wave_power_sum_witness:
  "length (alter_wave [1, 2, 3] [2, 5]) = 2 \<and>
   alter_wave [1, 2, 3] [2, 5] ! 0 = 17 \<and>
   alter_wave [1, 2, 3] [2, 5] ! 1 = 86"
proof -
  let ?c = "[1, 2, 3 :: real]" and ?w = "[2, 5 :: real]"
  have len3: "length ?c = 3" and len2: "length ?w = 2"
    by simp_all
  have all: "length (alter_wave ?c ?w) = length ?w \<and>
    (\<forall>j<length ?w. alter_wave ?c ?w ! j = (\<Sum>k<length ?c. ?c ! k * (?w ! j) ^ k))"
    by (rule alter_wave_power_sum)
  then have nth: "alter_wave ?c ?w ! j = (\<Sum>k<3. ?c ! k * (?w ! j) ^ k)" if "j < 2" for j
    using that unfolding len3 len2 by blast
  have "alter_wave ?c ?w ! 0 = 17"
    by (subst nth) (simp_all add: sum_lessThan_3)
  moreover have "alter_wave ?c ?w ! 1 = 86"
    by (subst nth) (simp_all add: sum_lessThan_3)
  ultimately show ?thesis using all by simp
qed

text \<open>
  C8. The initial guess \<open>[0, 1, 0]\<close> of the minimization is the identity warp:
  \<open>alter_wave\<close> returns every wavelength array unchanged.
\<close>

theorem alter_wave_identity_guess: "alter_wave [0, 1, 0] w = w"
proof (rule nth_equalityI)
  show "length (alter_wave [0, 1, 0] w) = length w"
    by (rule length_alter_wave)
next
  fix j assume "j < length (alter_wave [0, 1, 0] w)"
  then have j: "j < length w" by (simp add: length_alter_wave)
  have "alter_wave [0, 1, 0] w ! j = (\<Sum>k<length [0, 1, 0 :: real]. [0, 1, 0] ! k * (w ! j) ^ k)"
    using j by (rule nth_alter_wave)
  also have "\<dots> = 0 * (w ! j) ^ 0 + 1 * (w ! j) ^ 1 + 0 * (w ! j) ^ 2"
    by (simp add: numeral_2_eq_2)
  also have "\<dots> = w ! j"
    by simp
  finally show "alter_wave [0, 1, 0] w ! j = w ! j" .
qed

theorem alter_wave_identity_guess_witness:
  "alter_wave [0, 1, 0] [17 / 10, 2, 5 / 2] = [17 / 10, 2, 5 / 2]"
  by (rule alter_wave_identity_guess)

text \<open>
  C10. With an empty coefficient vector the loop body never runs: \<open>alter_wave\<close>
  returns, without an error, the all-zero array of the shape of \<open>w\<close>.
\<close>

theorem alter_wave_no_coefficients: "alter_wave [] w = replicate (length w) 0"
  by (simp add: alter_wave_def zeros_like_def)

theorem alter_wave_no_coefficients_witness:
  "alter_wave [] [17 / 10, 2, 5 / 2] = [0, 0, 0]"
proof -
  have "alter_wave [] [17 / 10, 2, 5 / 2] = replicate (length [17 / 10, 2, 5 / 2 :: real]) 0"
    by (rule alter_wave_no_coefficients)
  then show ?thesis by (simp add: numeral_3_eq_3)
qed

section \<open>Properties of the overlap selection\<close>

lemma err_bind_Inr [simp]: "err_bind (Inr v) f = f v"
  by (simp add: err_bind_def)

lemma err_bind_Inl [simp]: "err_bind (Inl e) f = Inl e"
  by (simp add: err_bind_def)

lemma broadcast2_same_length:
  "length xs = length ys \<Longrightarrow> broadcast2 f xs ys = Inr (map2 f xs ys)"
  by (simp add: broadcast2_def)

lemma np_min_eq: "a \<noteq> [] \<Longrightarrow> np_min a = Inr (Min (set a))"
  by (cases a) (simp_all add: np_min_def Min.set_eq_fold [symmetric])

lemma np_max_eq: "a \<noteq> [] \<Longrightarrow> np_max a = Inr (Max (set a))"
  by (cases a) (simp_all add: np_max_def Max.set_eq_fold [symmetric])

text \<open>An empty wavelength array has no minimum: the first reduction raises.\<close>

lemma overlap_selection_empty:
  "overlap_selection [] spec1 wave2 spec2 = Inl ValueError"
  "overlap_selection wave1 spec1 [] spec2 = Inl ValueError"
  by (cases wave1; simp add: overlap_selection_def np_min_def)+

lemma in_wave_eq:
  "length spec = length wave \<Longrightarrow>
   in_wave wave_lo wave_hi wave spec =
     Inr (map2 (\<lambda>w f. wave_lo \<le> w \<and> w \<le> wave_hi \<and> f \<noteq> 0) wave spec)"
  unfolding in_wave_def
  by (simp add: broadcast2_same_length zip_map_map zip_map1 zip_map2 zip_same_conv_map
        map_zip_map map_zip_map2 split_def conj_assoc)

lemma overlap_selection_eq:
  assumes "wave1 \<noteq> []" "wave2 \<noteq> []"
    and "length spec1 = length wave1" "length spec2 = length wave2"
  shows "overlap_selection wave1 spec1 wave2 spec2 =
     Inr (overlap_lo wave1 wave2, overlap_hi wave1 wave2,
          map2 (\<lambda>w f. overlap_lo wave1 wave2 \<le> w \<and> w \<le> overlap_hi wave1 wave2 \<and> f \<noteq> 0) wave1 spec1,
          map2 (\<lambda>w f. overlap_lo wave1 wave2 \<le> w \<and> w \<le> overlap_hi wave1 wave2 \<and> f \<noteq> 0) wave2 spec2)"
  using assms
  by (simp add: overlap_selection_def np_min_eq np_max_eq in_wave_eq Let_def
        overlap_lo_def overlap_hi_def)

lemma mask_all_false:
  assumes "length spec = length wave"
    and "\<forall>j<length wave. lo \<le> wave ! j \<and> wave ! j \<le> hi \<longrightarrow> spec ! j = 0"
  shows "map2 (\<lambda>w f. lo \<le> w \<and> w \<le> hi \<and> f \<noteq> 0) wave spec = replicate (length wave) False"
  using assms by (auto simp: list_eq_iff_nth_eq)

lemma disjoint_bounds:
  assumes "w1 \<noteq> []" "w2 \<noteq> []" "ranges_disjoint w1 w2"
  shows "overlap_hi w1 w2 < overlap_lo w1 w2"
  using assms unfolding ranges_disjoint_def overlap_hi_def overlap_lo_def
  by (auto simp: min_less_iff_disj less_max_iff_disj)

text \<open>
  C1. Given non-empty wavelength arrays \<open>wave1\<close>, \<open>wave2\<close> and flux arrays of the same
  lengths, the overlap selection returns the bounds \<open>lo = max(min(wave1), min(wave2))\<close>
  and \<open>hi = min(max(wave1), max(wave2))\<close> and, for each spectrum, a mask of the length
  of the spectrum that selects sample \<open>j\<close> if and only if \<open>lo \<le> wave[j] \<le> hi\<close> and
  \<open>spec[j] \<noteq> 0\<close>: a sample of flux zero is excluded also when its wavelength is
  within the bounds.
\<close>

theorem overlap_selection_masks:
  assumes "wave1 \<noteq> []" and "wave2 \<noteq> []"
    and "length spec1 = length wave1" and "length spec2 = length wave2"
  shows "\<exists>lo hi in_wave1 in_wave2.
           overlap_selection wave1 spec1 wave2 spec2 = Inr (lo, hi, in_wave1, in_wave2) \<and>
           lo = max (Min (set wave1)) (Min (set wave2)) \<and>
           hi = min (Max (set wave1)) (Max (set wave2)) \<and>
           length in_wave1 = length wave1 \<and> length in_wave2 = length wave2 \<and>
           (\<forall>j<length wave1. in_wave1 ! j \<longleftrightarrow> lo \<le> wave1 ! j \<and> wave1 ! j \<le> hi \<and> spec1 ! j \<noteq> 0) \<and>
           (\<forall>j<length wave2. in_wave2 ! j \<longleftrightarrow> lo \<le> wave2 ! j \<and> wave2 ! j \<le> hi \<and> spec2 ! j \<noteq> 0)"
  using assms by (simp add: overlap_selection_eq overlap_lo_def overlap_hi_def)

theorem overlap_selection_masks_witness:
  "overlap_selection [1, 2, 3] [5, 0, 7] [2, 3, 4] [1, 1, 0] =
     Inr (2, 3, [False, False, True], [True, True, False])"
proof -
  let ?w1 = "[1, 2, 3 :: real]" and ?s1 = "[5, 0, 7 :: real]"
  let ?w2 = "[2, 3, 4 :: real]" and ?s2 = "[1, 1, 0 :: real]"
  have "\<exists>lo hi in_wave1 in_wave2.
           overlap_selection ?w1 ?s1 ?w2 ?s2 = Inr (lo, hi, in_wave1, in_wave2) \<and>
           lo = max (Min (set ?w1)) (Min (set ?w2)) \<and>
           hi = min (Max (set ?w1)) (Max (set ?w2)) \<and>
           length in_wave1 = length ?w1 \<and> length in_wave2 = length ?w2 \<and>
           (\<forall>j<length ?w1. in_wave1 ! j \<longleftrightarrow> lo \<le> ?w1 ! j \<and> ?w1 ! j \<le> hi \<and> ?s1 ! j \<noteq> 0) \<and>
           (\<forall>j<length ?w2. in_wave2 ! j \<longleftrightarrow> lo \<le> ?w2 ! j \<and> ?w2 ! j \<le> hi \<and> ?s2 ! j \<noteq> 0)"
    by (rule overlap_selection_masks) simp_all
  then obtain in_wave1 in_wave2 where
    eq: "overlap_selection ?w1 ?s1 ?w2 ?s2 = Inr (2, 3, in_wave1, in_wave2)" and
    len: "length in_wave1 = 3" "length in_wave2 = 3" and
    m1: "\<And>j. j < 3 \<Longrightarrow> in_wave1 ! j \<longleftrightarrow> 2 \<le> ?w1 ! j \<and> ?w1 ! j \<le> 3 \<and> ?s1 ! j \<noteq> 0" and
    m2: "\<And>j. j < 3 \<Longrightarrow> in_wave2 ! j \<longleftrightarrow> 2 \<le> ?w2 ! j \<and> ?w2 ! j \<le> 3 \<and> ?s2 ! j \<noteq> 0"
    by auto
  have "in_wave1 = [False, False, True]"
    using len(1) m1 [of 0] m1 [of 1] m1 [of 2]
    by (auto simp: list_eq_iff_nth_eq less_Suc_eq numeral_3_eq_3 numeral_2_eq_2)
  moreover have "in_wave2 = [True, True, False]"
    using len(2) m2 [of 0] m2 [of 1] m2 [of 2]
    by (auto simp: list_eq_iff_nth_eq less_Suc_eq numeral_3_eq_3 numeral_2_eq_2)
  ultimately show ?thesis using eq by simp
qed

text \<open>
  C5. For every pair of input spectra whose wavelength ranges do not overlap, the
  overlap selection signals no error: it returns normally, with an all-false mask for
  each spectrum.
\<close>

theorem overlap_selection_disjoint_silent:
  assumes "wave1 \<noteq> []" and "wave2 \<noteq> []"
    and "length spec1 = length wave1" and "length spec2 = length wave2"
    and "ranges_disjoint wave1 wave2"
  shows "\<exists>lo hi. overlap_selection wave1 spec1 wave2 spec2 =
           Inr (lo, hi, replicate (length wave1) False, replicate (length wave2) False)"
proof -
  have "overlap_hi wave1 wave2 < overlap_lo wave1 wave2"
    using assms(1,2,5) by (rule disjoint_bounds)
  then have "map2 (\<lambda>w f. overlap_lo wave1 wave2 \<le> w \<and> w \<le> overlap_hi wave1 wave2 \<and> f \<noteq> 0) wave1 spec1
      = replicate (length wave1) False"
    and "map2 (\<lambda>w f. overlap_lo wave1 wave2 \<le> w \<and> w \<le> overlap_hi wave1 wave2 \<and> f \<noteq> 0) wave2 spec2
      = replicate (length wave2) False"
    using assms(3,4) by (simp_all add: mask_all_false)
  then show ?thesis
    using assms(1-4) by (simp add: overlap_selection_eq)
qed

theorem overlap_selection_disjoint_silent_witness:
  "ranges_disjoint [1, 2] [3, 4, 5] \<and>
   (\<exists>lo hi. overlap_selection [1, 2] [6, 7] [3, 4, 5] [8, 9, 10] =
      Inr (lo, hi, [False, False], [False, False, False]))"
proof -
  have d: "ranges_disjoint [1, 2] [3, 4, 5]"
    by (simp add: ranges_disjoint_def)
  have "\<exists>lo hi. overlap_selection [1, 2] [6, 7] [3, 4, 5] [8, 9, 10] =
      Inr (lo, hi, replicate (length [1, 2 :: real]) False, replicate (length [3, 4, 5 :: real]) False)"
    by (rule overlap_selection_disjoint_silent) (simp_all add: d)
  then show ?thesis using d by (simp add: numeral_3_eq_3 numeral_2_eq_2)
qed

text \<open>
  The spec's error section has the overlap selection raise an \<open>EmptyOverlapError\<close> on
  spectra that do not overlap. The cell has no check and no \<^verbatim>\<open>raise\<close>: on the
  disjoint ranges \<open>[1, 2]\<close> and \<open>[3, 4]\<close> it returns \<open>lo = 3\<close>, \<open>hi = 2\<close> and two
  all-false masks.
\<close>

theorem overlap_selection_empty_overlap_counterexample:
  "ranges_disjoint [1, 2] [3, 4] \<and>
   overlap_selection [1, 2] [1, 1] [3, 4] [1, 1] = Inr (3, 2, [False, False], [False, False]) \<and>
   \<not> isl (overlap_selection [1, 2] [1, 1] [3, 4] [1, 1])"
  by (simp add: ranges_disjoint_def overlap_selection_def np_min_def np_max_def in_wave_def
        broadcast2_def)

text \<open>
  C4 (amended). For every pair of non-empty input spectra whose wavelength ranges do
  not overlap, and likewise when every sample within the bounds has flux zero, the
  overlap selection raises no error: it returns the bounds and an all-false mask for
  each spectrum.
\<close>

theorem overlap_selection_empty_overlap_no_error:
  assumes "wave1 \<noteq> []" and "wave2 \<noteq> []"
    and "length spec1 = length wave1" and "length spec2 = length wave2"
    and "ranges_disjoint wave1 wave2 \<or>
         (\<forall>j<length wave1. overlap_lo wave1 wave2 \<le> wave1 ! j \<and> wave1 ! j \<le> overlap_hi wave1 wave2
             \<longrightarrow> spec1 ! j = 0) \<and>
         (\<forall>j<length wave2. overlap_lo wave1 wave2 \<le> wave2 ! j \<and> wave2 ! j \<le> overlap_hi wave1 wave2
             \<longrightarrow> spec2 ! j = 0)"
  shows "overlap_selection wave1 spec1 wave2 spec2 =
           Inr (overlap_lo wave1 wave2, overlap_hi wave1 wave2,
                replicate (length wave1) False, replicate (length wave2) False)"
proof -
  have zero: "(\<forall>j<length wave1. overlap_lo wave1 wave2 \<le> wave1 ! j \<and> wave1 ! j \<le> overlap_hi wave1 wave2
             \<longrightarrow> spec1 ! j = 0) \<and>
         (\<forall>j<length wave2. overlap_lo wave1 wave2 \<le> wave2 ! j \<and> wave2 ! j \<le> overlap_hi wave1 wave2
             \<longrightarrow> spec2 ! j = 0)"
    using assms(5) disjoint_bounds [OF assms(1,2)] by fastforce
  show ?thesis
    using assms(1-4) zero by (simp add: overlap_selection_eq mask_all_false)
qed

theorem overlap_selection_empty_overlap_no_error_witness:
  "overlap_selection [1, 2, 3] [5, 0, 0] [2, 3, 4] [0, 0, 6] =
     Inr (2, 3, [False, False, False], [False, False, False])"
proof -
  let ?w1 = "[1, 2, 3 :: real]" and ?s1 = "[5, 0, 0 :: real]"
  let ?w2 = "[2, 3, 4 :: real]" and ?s2 = "[0, 0, 6 :: real]"
  have lo: "overlap_lo ?w1 ?w2 = 2" and hi: "overlap_hi ?w1 ?w2 = 3"
    by (simp_all add: overlap_lo_def overlap_hi_def)
  have "overlap_selection ?w1 ?s1 ?w2 ?s2 =
           Inr (overlap_lo ?w1 ?w2, overlap_hi ?w1 ?w2,
                replicate (length ?w1) False, replicate (length ?w2) False)"
  proof (rule overlap_selection_empty_overlap_no_error)
    show "ranges_disjoint ?w1 ?w2 \<or>
         (\<forall>j<length ?w1. overlap_lo ?w1 ?w2 \<le> ?w1 ! j \<and> ?w1 ! j \<le> overlap_hi ?w1 ?w2
             \<longrightarrow> ?s1 ! j = 0) \<and>
         (\<forall>j<length ?w2. overlap_lo ?w1 ?w2 \<le> ?w2 ! j \<and> ?w2 ! j \<le> overlap_hi ?w1 ?w2
             \<longrightarrow> ?s2 ! j = 0)"
      unfolding lo hi by (auto simp: less_Suc_eq numeral_3_eq_3)
  qed simp_all
  then show ?thesis
    unfolding lo hi by (simp add: numeral_3_eq_3)
qed

section \<open>Properties of the continuum normalization\<close>

lemma ok_px_eq:
  "length div_spec = length out_wave \<Longrightarrow>
   ok_px div_spec out_wave = Inr (map2 (\<lambda>r w. isfinite r \<and> 17 / 10 \<le> w) div_spec out_wave)"
  unfolding ok_px_def
  by (simp add: broadcast2_same_length zip_map_map split_def)

lemma select_fst:
  "length a = length b \<Longrightarrow>
   select a (map2 (\<lambda>y x. P x y) b a) = map fst (filter (\<lambda>(x, y). P x y) (zip a b))"
  unfolding select_def by (induction a b rule: list_induct2) simp_all

lemma select_snd:
  "length a = length b \<Longrightarrow>
   select b (map2 (\<lambda>y x. P x y) b a) = map snd (filter (\<lambda>(x, y). P x y) (zip a b))"
  unfolding select_def by (induction a b rule: list_induct2) simp_all


lemma normalization_eq:
  assumes "length div_spec = length out_wave"
  shows "normalization fitter out_wave div_spec =
     fitter 2 (map fst (filter (\<lambda>(w, r). isfinite r \<and> 17 / 10 \<le> w) (zip out_wave div_spec)))
              (map snd (filter (\<lambda>(w, r). isfinite r \<and> 17 / 10 \<le> w) (zip out_wave div_spec)))"
  using assms
  by (simp add: normalization_def ok_px_eq mask_index_def select_fst select_snd)

text \<open>
  The spec has the normalization fit raise a \<open>DomainError\<close> when no sample passes the
  filter. The cell has no such check: with both wavelengths below 1.70 the mask
  \<open>ok_px\<close> is all false, the fitter is called on two empty arrays, and whatever it
  returns is the result. With a fitter that answers the zero polynomial, the cell
  returns these coefficients.
\<close>

theorem normalization_empty_fit_set_counterexample:
  "ok_px [Finite 1, Finite 1] [1, 3 / 2] = Inr [False, False] \<and>
   normalization (\<lambda>degree x y. Inr (replicate (Suc degree) 0)) [1, 3 / 2] [Finite 1, Finite 1] =
     Inr [0, 0, 0] \<and>
   \<not> isl (normalization (\<lambda>degree x y. Inr (replicate (Suc degree) 0)) [1, 3 / 2] [Finite 1, Finite 1])"
  by (simp add: normalization_def ok_px_def broadcast2_def mask_index_def select_def
        numeral_2_eq_2)

text \<open>
  C6 (amended). For every input where no sample has a finite ratio and a wavelength of
  at least 1.70, the normalization cell makes no check of its own: it calls the
  least-squares fitter with the degree-2 model on two empty arrays, and its outcome,
  coefficients or an exception, is the fitter's.
\<close>

theorem normalization_empty_fit_set:
  assumes "length div_spec = length out_wave"
    and "\<forall>j<length out_wave. \<not> (isfinite (div_spec ! j) \<and> 17 / 10 \<le> out_wave ! j)"
  shows "normalization fitter out_wave div_spec = fitter 2 [] []"
proof -
  have "filter (\<lambda>(w, r). isfinite r \<and> 17 / 10 \<le> w) (zip out_wave div_spec) = []"
    using assms by (auto simp: filter_empty_conv in_set_zip)
  then show ?thesis
    using assms(1) by (simp add: normalization_eq)
qed

theorem normalization_empty_fit_set_witness:
  "\<forall>fitter. normalization fitter [1, 3 / 2, 2] [Finite 1, Finite 1, NonFinite] = fitter 2 [] []"
proof
  fix fitter :: fitter_routine
  show "normalization fitter [1, 3 / 2, 2] [Finite 1, Finite 1, NonFinite] = fitter 2 [] []"
    by (rule normalization_empty_fit_set) (auto simp: less_Suc_eq numeral_3_eq_3)
qed









section \<open>Properties of the registration\<close>

lemma np_std_population:
  "a \<noteq> [] \<Longrightarrow> np_std a = Finite (population_std a)"
  by (simp add: np_std_def population_std_def Let_def)

lemma alter_wave_example: "alter_wave [0, 1, 0] [1, 2] = [1, 2]"
  by (simp add: alter_wave_def alter_wave_step_def zeros_like_def enumerate_eq_zip
        upt_rec numeral_2_eq_2)

text \<open>
  \<^verbatim>\<open>diff_spec.std()\<close> is called with numpy's defaults, so the divisor is \<open>N\<close>, not
  \<open>N - 1\<close>: for the difference spectrum \<open>[1, 3]\<close> the objective is 1, and the unbiased
  standard deviation is \<open>sqrt 2\<close>.
\<close>

theorem fit_metric_unbiased_counterexample:
  "alter_spec linear_interp [1, 3] [True, True] [1, 2] (alter_wave [0, 1, 0] [1, 2]) = Inr [1, 3] \<and>
   fit_metric linear_interp [1, 3] [True, True] [1, 2] [0, 0] [0, 1, 0] [1, 2] = Inr (Finite 1) \<and>
   unbiased_std (map2 (-) [1, 3] [0, 0]) = sqrt 2 \<and>
   fit_metric linear_interp [1, 3] [True, True] [1, 2] [0, 0] [0, 1, 0] [1, 2] \<noteq>
     Inr (Finite (unbiased_std (map2 (-) [1, 3] [0, 0])))"
proof -
  have spec: "alter_spec linear_interp [1, 3] [True, True] [1, 2] (alter_wave [0, 1, 0] [1, 2]) =
      Inr [1, 3]"
    by (simp add: alter_wave_example alter_spec_def mask_index_def select_def linear_interp_def)
  have metric: "fit_metric linear_interp [1, 3] [True, True] [1, 2] [0, 0] [0, 1, 0] [1, 2] =
      Inr (Finite 1)"
    by (simp add: fit_metric_def spec broadcast2_def np_std_def Let_def)
  have unb: "unbiased_std (map2 (-) [1, 3] [0, 0]) = sqrt 2"
    by (simp add: unbiased_std_def)
  show ?thesis
    using spec metric unb by simp
qed

text \<open>
  C2 (amended). For every trial coefficient vector and wavelength array for which the
  resampling returns an array of the shape of the non-empty normalized reference, the
  objective value is the population standard deviation (divisor \<open>N\<close>, no per-point
  weighting) of the elementwise difference between the resampled comparison and the
  normalized reference.
\<close>

theorem fit_metric_population_std:
  assumes "alter_spec interp1d spec2 in_wave2 out_wave (alter_wave poly_coefs old_wave) =
             Inr altered_spec2"
    and "length altered_spec2 = length scaled_spec1"
    and "scaled_spec1 \<noteq> []"
  shows "fit_metric interp1d spec2 in_wave2 out_wave scaled_spec1 poly_coefs old_wave =
           Inr (Finite (population_std (map2 (-) altered_spec2 scaled_spec1)))"
proof -
  have "map2 (-) altered_spec2 scaled_spec1 \<noteq> []"
    using assms(2,3) by (cases altered_spec2; cases scaled_spec1) simp_all
  then show ?thesis
    using assms(1,2)
    by (simp add: fit_metric_def broadcast2_same_length np_std_population)
qed

theorem fit_metric_population_std_witness:
  "fit_metric linear_interp [1, 3] [True, True] [1, 2] [0, 0] [0, 1, 0] [1, 2] =
     Inr (Finite (population_std [1, 3])) \<and> population_std [1, 3] = 1"
proof -
  have "alter_spec linear_interp [1, 3] [True, True] [1, 2] (alter_wave [0, 1, 0] [1, 2]) =
      Inr [1, 3]"
    by (simp add: alter_wave_example alter_spec_def mask_index_def select_def linear_interp_def)
  then have "fit_metric linear_interp [1, 3] [True, True] [1, 2] [0, 0] [0, 1, 0] [1, 2] =
      Inr (Finite (population_std (map2 (-) [1, 3] [0, 0])))"
    by (rule fit_metric_population_std) simp_all
  then show ?thesis
    by (simp add: population_std_def)
qed

text \<open>
  C9. When the minimizer returns a result that reports non-convergence, the
  registration cell raises nothing and inspects nothing: \<open>pixel_fit\<close> is that result,
  with its coefficient vector, convergence flag, final objective value and iteration
  count, and so is \<open>pixel_fit2\<close> for its own call. Each cell is the outcome of its call
  of the minimizer, whatever the other call does.
\<close>

theorem pixel_fit_keeps_optimizer_result:
  assumes "length in_wave2 = length wave2"
  shows
    "pixel_fit minimize interp1d wave2 spec2 in_wave2 out_wave scaled_spec1 =
       minimize (fit_metric interp1d spec2 in_wave2 out_wave scaled_spec1) [0, 1, 0]
         (select wave2 in_wave2) \<and>
     (\<forall>r. minimize (fit_metric interp1d spec2 in_wave2 out_wave scaled_spec1) [0, 1, 0]
            (select wave2 in_wave2) = Inr r \<and> \<not> res_success r \<longrightarrow>
          pixel_fit minimize interp1d wave2 spec2 in_wave2 out_wave scaled_spec1 = Inr r) \<and>
     pixel_fit2 minimize interp1d wave2 spec2 in_wave2 out_wave scaled_spec1 =
       minimize (fit_metric interp1d spec2 in_wave2 out_wave scaled_spec1) [0, 1, 0]
         (map (\<lambda>w. w * (11 / 10)) (select wave2 in_wave2)) \<and>
     (\<forall>r. minimize (fit_metric interp1d spec2 in_wave2 out_wave scaled_spec1) [0, 1, 0]
            (map (\<lambda>w. w * (11 / 10)) (select wave2 in_wave2)) = Inr r \<and> \<not> res_success r \<longrightarrow>
          pixel_fit2 minimize interp1d wave2 spec2 in_wave2 out_wave scaled_spec1 = Inr r)"
proof -
  have old_wave: "mask_index wave2 in_wave2 = Inr (select wave2 in_wave2)"
    using assms by (simp add: mask_index_def)
  have cell1: "pixel_fit minimize interp1d wave2 spec2 in_wave2 out_wave scaled_spec1 =
       minimize (fit_metric interp1d spec2 in_wave2 out_wave scaled_spec1) [0, 1, 0]
         (select wave2 in_wave2)"
    by (simp add: pixel_fit_def old_wave)
  have cell2: "pixel_fit2 minimize interp1d wave2 spec2 in_wave2 out_wave scaled_spec1 =
       minimize (fit_metric interp1d spec2 in_wave2 out_wave scaled_spec1) [0, 1, 0]
         (map (\<lambda>w. w * (11 / 10)) (select wave2 in_wave2))"
    by (simp add: pixel_fit2_def old_wave)
  show ?thesis
    using cell1 cell2 by simp
qed

lemma sqrt_example: "sqrt (100 / 121) = 10 / 11"
  by (rule real_sqrt_unique) (simp_all add: power2_eq_square)

lemma fit_metric_examples:
  "fit_metric linear_interp [1, 3] [True, True] [1, 2] [0, 0] [0, 1, 0] [1, 2] = Inr (Finite 1)"
  "fit_metric linear_interp [1, 3] [True, True] [1, 2] [0, 0] [0, 1, 0] [11 / 10, 11 / 5] =
     Inr (Finite (10 / 11))"
proof -
  have "alter_wave [0, 1, 0] [11 / 10, 11 / 5] = [11 / 10, 11 / 5]"
    by (simp add: alter_wave_def alter_wave_step_def zeros_like_def enumerate_eq_zip
        upt_rec numeral_2_eq_2)
  then show "fit_metric linear_interp [1, 3] [True, True] [1, 2] [0, 0] [0, 1, 0]
      [11 / 10, 11 / 5] = Inr (Finite (10 / 11))"
    by (simp add: fit_metric_def alter_spec_def mask_index_def select_def linear_interp_def
        broadcast2_def np_std_def Let_def sqrt_example)
  show "fit_metric linear_interp [1, 3] [True, True] [1, 2] [0, 0] [0, 1, 0] [1, 2] =
      Inr (Finite 1)"
    by (simp add: fit_metric_def alter_wave_example alter_spec_def mask_index_def select_def
        linear_interp_def broadcast2_def np_std_def Let_def)
qed

theorem pixel_fit_keeps_optimizer_result_witness:
  "pixel_fit give_up_minimizer linear_interp [1, 2] [1, 3] [True, True] [1, 2] [0, 0] =
     Inr \<lparr>res_x = [0, 1, 0], res_success = False, res_fun = Finite 1, res_nit = 0\<rparr> \<and>
   pixel_fit2 give_up_minimizer linear_interp [1, 2] [1, 3] [True, True] [1, 2] [0, 0] =
     Inr \<lparr>res_x = [0, 1, 0], res_success = False, res_fun = Finite (10 / 11), res_nit = 0\<rparr> \<and>
   pixel_fit failing_minimizer linear_interp [1, 2] [1, 3] [True, True] [1, 2] [0, 0] =
     Inr \<lparr>res_x = [0, 1, 0], res_success = False, res_fun = Finite 1, res_nit = 0\<rparr> \<and>
   pixel_fit2 failing_minimizer linear_interp [1, 2] [1, 3] [True, True] [1, 2] [0, 0] =
     Inl (LibraryError ''minimize failed'')"
proof -
  have old_wave: "select [1, 2 :: real] [True, True] = [1, 2]"
    by (simp add: select_def)
  have len: "length [True, True] = length [1, 2 :: real]"
    by simp
  show ?thesis
    using pixel_fit_keeps_optimizer_result [OF len, of give_up_minimizer linear_interp
        "[1, 3]" "[1, 2]" "[0, 0]"]
      pixel_fit_keeps_optimizer_result [OF len, of failing_minimizer linear_interp
        "[1, 3]" "[1, 2]" "[0, 0]"]
    unfolding old_wave
    by (simp add: give_up_minimizer_def failing_minimizer_def fit_metric_examples)
qed

end
